theory Spec2Isabelle
  imports Complex_Main
begin

section \<open>Values of the host language\<close>

text \<open>
  An optional property (\<^verbatim>\<open>id?: string\<close>) holds a value of its declared type or
  \<^verbatim>\<open>undefined\<close>; it is an \<open>option\<close>, with \<open>None\<close> for \<^verbatim>\<open>undefined\<close>.
  A \<^verbatim>\<open>number\<close> is a finite number or one of the three non-finite values.
  The classes \<^verbatim>\<open>Attachment\<close> and \<^verbatim>\<open>V1CredentialPreview\<close> are imported by the
  file and only passed through; they are the type parameters \<open>'a\<close> and \<open>'p\<close>.
\<close>

datatype number = Finite real | NaN | Infinity | NegInfinity

datatype error = TypeError

text \<open>
  Truthiness, as \<^verbatim>\<open>if (x)\<close> and \<^verbatim>\<open>x || y\<close> test it: an object or an array is
  truthy whenever it is there (also the empty array), a string when it is there and
  not empty.
\<close>

definition truthy_object :: "'v option \<Rightarrow> bool" where
  "truthy_object v = (case v of None \<Rightarrow> False | Some _ \<Rightarrow> True)"

definition truthy_string :: "string option \<Rightarrow> bool" where
  "truthy_string v = (case v of None \<Rightarrow> False | Some s \<Rightarrow> s \<noteq> [])"

text \<open>
  \<^verbatim>\<open>l ?? r\<close> and \<^verbatim>\<open>l || r\<close> with a right operand that has an effect on a
  state \<open>'g\<close>: the right operand runs only when the left one is nullish
  (\<^verbatim>\<open>??\<close>), respectively falsy (\<^verbatim>\<open>||\<close>).
\<close>

definition nullish_coalescing :: "'v option \<Rightarrow> ('g \<Rightarrow> 'v \<times> 'g) \<Rightarrow> 'g \<Rightarrow> 'v \<times> 'g" where
  "nullish_coalescing l r g = (case l of Some v \<Rightarrow> (v, g) | None \<Rightarrow> r g)"

definition logical_or :: "string option \<Rightarrow> ('g \<Rightarrow> string \<times> 'g) \<Rightarrow> 'g \<Rightarrow> string \<times> 'g" where
  "logical_or l r g =
     (case l of
        None \<Rightarrow> r g
      | Some v \<Rightarrow> if truthy_string (Some v) then (v, g) else r g)"

text \<open>
  \<^verbatim>\<open>arr[i]\<close>: reading an index of \<^verbatim>\<open>undefined\<close> throws a \<^verbatim>\<open>TypeError\<close>; reading
  an array beyond its length yields \<^verbatim>\<open>undefined\<close>.
\<close>

definition index :: "'v list option \<Rightarrow> nat \<Rightarrow> error + 'v option" where
  "index arr i =
     (case arr of
        None \<Rightarrow> Inl TypeError
      | Some xs \<Rightarrow> Inr (if i < length xs then Some (xs ! i) else None))"

section \<open>Message types\<close>

text \<open>
  Modelled from the spec: \<^verbatim>\<open>parseMessageType\<close> (utils/messageType) is imported by
  the file and not part of it. The spec has the message-type URI of a class
  "match the documented protocol URI string exactly": the parsed type carries
  the URI it was made from.
\<close>

record ParsedMessageType =
  messageTypeUri :: string

definition parseMessageType :: "string \<Rightarrow> ParsedMessageType" where
  "parseMessageType messageType = \<lparr>messageTypeUri = messageType\<rparr>"

section \<open>The messages\<close>

text \<open>
  \<^verbatim>\<open>AgentMessage\<close> is the base class of both messages. The file uses three of its
  properties, \<^verbatim>\<open>id\<close>, \<^verbatim>\<open>type\<close> (redeclared \<^verbatim>\<open>readonly\<close> by each message) and
  \<^verbatim>\<open>appendedAttachments\<close>, and its method \<^verbatim>\<open>generateId\<close>, which is a parameter
  of the constructors below: a function from a generator state \<open>'g\<close> to the
  identifier it returns and the next state.
\<close>

record 'a AgentMessage =
  id_msg :: "string option"
  type :: string
  appendedAttachments :: "'a list option"

record ('a, 'p) ProposeCredentialMessageOptions =
  id_opt :: "string option"
  comment_opt :: "string option"
  credentialProposal_opt :: "'p option"
  schemaIssuerDid_opt :: "string option"
  schemaId_opt :: "string option"
  schemaName_opt :: "string option"
  schemaVersion_opt :: "string option"
  credentialDefinitionId_opt :: "string option"
  issuerDid_opt :: "string option"
  attachments :: "'a list option"

record ('a, 'p) V1ProposeCredentialMessage = "'a AgentMessage" +
  comment :: "string option"
  credentialProposal :: "'p option"
  schemaIssuerDid :: "string option"
  schemaId :: "string option"
  schemaName :: "string option"
  schemaVersion :: "string option"
  credentialDefinitionId :: "string option"
  issuerDid :: "string option"

definition V1ProposeCredentialMessage_type :: ParsedMessageType where
  "V1ProposeCredentialMessage_type =
     parseMessageType ''https://didcomm.org/issue-credential/1.0/propose-credential''"

text \<open>
  The instance after \<^verbatim>\<open>super()\<close> and the property initialisers, before the body of
  the constructor: \<^verbatim>\<open>type\<close> is initialised, nothing else is set. The body runs
  under \<^verbatim>\<open>if (options)\<close>: an options object is truthy whenever it is there.
\<close>

definition V1ProposeCredentialMessage_init :: "('a, 'p) V1ProposeCredentialMessage" where
  "V1ProposeCredentialMessage_init =
     \<lparr>id_msg = None,
      type = messageTypeUri V1ProposeCredentialMessage_type,
      appendedAttachments = None,
      comment = None,
      credentialProposal = None,
      schemaIssuerDid = None,
      schemaId = None,
      schemaName = None,
      schemaVersion = None,
      credentialDefinitionId = None,
      issuerDid = None\<rparr>"

definition V1ProposeCredentialMessage_new ::
  "('g \<Rightarrow> string \<times> 'g) \<Rightarrow> ('a, 'p) ProposeCredentialMessageOptions option \<Rightarrow> 'g
     \<Rightarrow> ('a, 'p) V1ProposeCredentialMessage \<times> 'g" where
  "V1ProposeCredentialMessage_new generateId options g =
     (let this = V1ProposeCredentialMessage_init in
      case options of
        None \<Rightarrow> (this, g)
      | Some opts \<Rightarrow>
        (let (i, g') = nullish_coalescing (id_opt opts) generateId g
         in (this
              \<lparr>id_msg := Some i,
               comment := comment_opt opts,
               credentialProposal := credentialProposal_opt opts,
               schemaIssuerDid := schemaIssuerDid_opt opts,
               schemaId := schemaId_opt opts,
               schemaName := schemaName_opt opts,
               schemaVersion := schemaVersion_opt opts,
               credentialDefinitionId := credentialDefinitionId_opt opts,
               issuerDid := issuerDid_opt opts,
               appendedAttachments := attachments opts\<rparr>, g')))"

definition getAttachment :: "('a, 'p) V1ProposeCredentialMessage \<Rightarrow> error + 'a option" where
  "getAttachment this =
     (if truthy_object (appendedAttachments this)
      then index (appendedAttachments this) 0
      else Inr None)"

record BatchPickupMessageOptions =
  id_bopt :: "string option"
  batchSize_bopt :: "number option"

record 'a BatchPickupMessage = "'a AgentMessage" +
  batchSize :: "number option"

definition BatchPickupMessage_type :: ParsedMessageType where
  "BatchPickupMessage_type =
     parseMessageType ''https://didcomm.org/messagepickup/1.0/batch-pickup''"

definition BatchPickupMessage_init :: "'a BatchPickupMessage" where
  "BatchPickupMessage_init =
     \<lparr>id_msg = None,
      type = messageTypeUri BatchPickupMessage_type,
      appendedAttachments = None,
      batchSize = None\<rparr>"

definition BatchPickupMessage_new ::
  "('g \<Rightarrow> string \<times> 'g) \<Rightarrow> BatchPickupMessageOptions option \<Rightarrow> 'g
     \<Rightarrow> 'a BatchPickupMessage \<times> 'g" where
  "BatchPickupMessage_new generateId options g =
     (let this = BatchPickupMessage_init in
      case options of
        None \<Rightarrow> (this, g)
      | Some opts \<Rightarrow>
        (let (i, g') = logical_or (id_bopt opts) generateId g
         in (this\<lparr>id_msg := Some i, batchSize := batchSize_bopt opts\<rparr>, g')))"

section \<open>The validation pass\<close>

text \<open>
  The properties carry validation decorators; the constructors never read them.
  A validation pass over an instance looks at each decorated property: with
  \<^verbatim>\<open>@IsOptional()\<close> a property that is \<^verbatim>\<open>undefined\<close> is skipped; otherwise every
  decorator of the property is checked, a nested object is validated by its own
  class, and the property gets one error that names it and lists the constraints
  that failed, each with the \<^verbatim>\<open>message\<close> option of its decorator (\<open>None\<close> when the
  decorator gives none).
\<close>

datatype constraint = isString | matches | isInt | isInstance | isValidMessageType

datatype ValidationError =
  ValidationError (property: string) (constraints: "(constraint \<times> string option) list")
    (children: "ValidationError list")

type_synonym 'v decorator = "constraint \<times> string option \<times> ('v \<Rightarrow> bool)"

text \<open>
  The properties are typed: a value that is there is of the declared type, so
  \<^verbatim>\<open>@IsString()\<close> on a string and \<^verbatim>\<open>@IsInstance(V1CredentialPreview)\<close> on a preview
  hold. \<^verbatim>\<open>@IsInt()\<close> holds of the numbers that \<^verbatim>\<open>Number.isInteger\<close> accepts.
\<close>

definition IsString :: "string decorator" where
  "IsString = (isString, None, \<lambda>_. True)"

definition Matches :: "(string \<Rightarrow> bool) \<Rightarrow> string option \<Rightarrow> string decorator" where
  "Matches pattern message = (matches, message, pattern)"

definition IsInstance :: "'p decorator" where
  "IsInstance = (isInstance, None, \<lambda>_. True)"

definition isInteger :: "number \<Rightarrow> bool" where
  "isInteger v = (case v of Finite r \<Rightarrow> of_int \<lfloor>r\<rfloor> = r | _ \<Rightarrow> False)"

definition IsInt :: "number decorator" where
  "IsInt = (isInt, None, isInteger)"

text \<open>
  The regular expressions of \<^verbatim>\<open>utils\<close> and the decorator \<^verbatim>\<open>IsValidMessageType\<close> of
  \<^verbatim>\<open>utils/messageType\<close> are imported by the file and not part of it: they are
  parameters, each regular expression as the set of strings it matches.
\<close>

record utils =
  indyDidRegex :: "string \<Rightarrow> bool"
  schemaIdRegex :: "string \<Rightarrow> bool"
  schemaVersionRegex :: "string \<Rightarrow> bool"
  credDefIdRegex :: "string \<Rightarrow> bool"
  IsValidMessageType :: "ParsedMessageType \<Rightarrow> string \<Rightarrow> bool"

definition IsValidMessageType_decorator :: "utils \<Rightarrow> ParsedMessageType \<Rightarrow> string decorator" where
  "IsValidMessageType_decorator u t = (isValidMessageType, None, IsValidMessageType u t)"

text \<open>No decorator of the file holds of \<^verbatim>\<open>undefined\<close>.\<close>

definition failed :: "'v decorator list \<Rightarrow> 'v option \<Rightarrow> (constraint \<times> string option) list" where
  "failed ds val =
     map (\<lambda>(c, m, p). (c, m))
       (filter (\<lambda>(c, m, p). case val of None \<Rightarrow> True | Some v \<Rightarrow> \<not> p v) ds)"

definition validateProperty ::
  "string \<Rightarrow> bool \<Rightarrow> 'v decorator list \<Rightarrow> ('v \<Rightarrow> ValidationError list) \<Rightarrow> 'v option
     \<Rightarrow> ValidationError list" where
  "validateProperty name IsOptional ds ValidateNested val =
     (if IsOptional \<and> val = None then []
      else
        (let cs = failed ds val;
             ch = (case val of None \<Rightarrow> [] | Some v \<Rightarrow> ValidateNested v)
         in if cs = [] \<and> ch = [] then [] else [ValidationError name cs ch]))"

definition not_nested :: "'v \<Rightarrow> ValidationError list" where
  "not_nested v = []"

text \<open>
  The decorators of the two classes, property by property. The validation of
  \<^verbatim>\<open>V1CredentialPreview\<close> is the parameter \<open>preview\<close>. The properties that
  \<^verbatim>\<open>AgentMessage\<close> declares are validated by its own decorators, not by the file's.
\<close>

definition V1ProposeCredentialMessage_validate ::
  "utils \<Rightarrow> ('p \<Rightarrow> ValidationError list) \<Rightarrow> ('a, 'p) V1ProposeCredentialMessage
     \<Rightarrow> ValidationError list" where
  "V1ProposeCredentialMessage_validate u preview this =
     validateProperty ''type'' False
       [IsValidMessageType_decorator u V1ProposeCredentialMessage_type] not_nested
       (Some (type this)) @
     validateProperty ''comment'' True [IsString] not_nested (comment this) @
     validateProperty ''credentialProposal'' True [IsInstance] preview
       (credentialProposal this) @
     validateProperty ''schemaIssuerDid'' True [IsString, Matches (indyDidRegex u) None]
       not_nested (schemaIssuerDid this) @
     validateProperty ''schemaId'' True [IsString, Matches (schemaIdRegex u) None]
       not_nested (schemaId this) @
     validateProperty ''schemaName'' True [IsString] not_nested (schemaName this) @
     validateProperty ''schemaVersion'' True
       [IsString, Matches (schemaVersionRegex u) (Some ''Version must be X.X or X.X.X'')]
       not_nested (schemaVersion this) @
     validateProperty ''credentialDefinitionId'' True
       [IsString, Matches (credDefIdRegex u) None] not_nested (credentialDefinitionId this) @
     validateProperty ''issuerDid'' True [IsString, Matches (indyDidRegex u) None]
       not_nested (issuerDid this)"

definition BatchPickupMessage_validate :: "utils \<Rightarrow> 'a BatchPickupMessage \<Rightarrow> ValidationError list" where
  "BatchPickupMessage_validate u this =
     validateProperty ''type'' False
       [IsValidMessageType_decorator u BatchPickupMessage_type] not_nested
       (Some (type this)) @
     validateProperty ''batchSize'' False [IsInt] not_nested (batchSize this)"

section \<open>The schema-version pattern\<close>




section \<open>Wire names\<close>

text \<open>The \<^verbatim>\<open>@Expose({ name: ... })\<close> decorators of the two classes.\<close>

definition V1ProposeCredentialMessage_Expose :: "(string \<times> string) list" where
  "V1ProposeCredentialMessage_Expose =
     [(''credentialProposal'', ''credential_proposal''),
      (''schemaIssuerDid'', ''schema_issuer_did''),
      (''schemaId'', ''schema_id''),
      (''schemaName'', ''schema_name''),
      (''schemaVersion'', ''schema_version''),
      (''credentialDefinitionId'', ''cred_def_id''),
      (''issuerDid'', ''issuer_did'')]"

definition BatchPickupMessage_Expose :: "(string \<times> string) list" where
  "BatchPickupMessage_Expose = [(''batchSize'', ''batch_size'')]"

text \<open>
  Modelled from the spec: the serialiser (\<^verbatim>\<open>toJSON\<close> of \<^verbatim>\<open>AgentMessage\<close> and the
  transformer behind it) is not part of the file. The spec has the wire format
  be a "JSON object with fixed \<^verbatim>\<open>@type\<close>/type-URI field and snake_case field names
  distinct from internal field names", by the name mapping of the class, and
  "omitting optional fields yields no corresponding wire key". A property
  without a declared wire name keeps its own name. The wire names of the
  properties that \<^verbatim>\<open>AgentMessage\<close> declares besides \<^verbatim>\<open>type\<close> are given neither by
  the spec nor by the file; the model serialises the properties the two classes
  declare. A JSON object is the list of its keys with their values.
\<close>

datatype 'p json = JString string | JNumber number | JObject 'p

definition wireName :: "(string \<times> string) list \<Rightarrow> string \<Rightarrow> string" where
  "wireName expose name = (case map_of expose name of None \<Rightarrow> name | Some w \<Rightarrow> w)"

definition property_toJSON ::
  "(string \<times> string) list \<Rightarrow> string \<Rightarrow> ('v \<Rightarrow> 'p json) \<Rightarrow> 'v option \<Rightarrow> (string \<times> 'p json) list" where
  "property_toJSON expose name j val =
     (case val of None \<Rightarrow> [] | Some v \<Rightarrow> [(wireName expose name, j v)])"

definition V1ProposeCredentialMessage_toJSON ::
  "('a, 'p) V1ProposeCredentialMessage \<Rightarrow> (string \<times> 'p json) list" where
  "V1ProposeCredentialMessage_toJSON this =
     (let e = V1ProposeCredentialMessage_Expose in
      (''@type'', JString (type this)) #
      property_toJSON e ''comment'' JString (comment this) @
      property_toJSON e ''credentialProposal'' JObject (credentialProposal this) @
      property_toJSON e ''schemaIssuerDid'' JString (schemaIssuerDid this) @
      property_toJSON e ''schemaId'' JString (schemaId this) @
      property_toJSON e ''schemaName'' JString (schemaName this) @
      property_toJSON e ''schemaVersion'' JString (schemaVersion this) @
      property_toJSON e ''credentialDefinitionId'' JString (credentialDefinitionId this) @
      property_toJSON e ''issuerDid'' JString (issuerDid this))"

definition BatchPickupMessage_toJSON :: "'a BatchPickupMessage \<Rightarrow> (string \<times> 'p json) list" where
  "BatchPickupMessage_toJSON this =
     (let e = BatchPickupMessage_Expose in
      (''@type'', JString (type this)) #
      property_toJSON e ''batchSize'' JNumber (batchSize this))"

section \<open>The constructors, unfolded\<close>

lemma V1ProposeCredentialMessage_new_Some:
  "V1ProposeCredentialMessage_new generateId (Some opts) g =
     (V1ProposeCredentialMessage_init
        \<lparr>id_msg := Some (fst (nullish_coalescing (id_opt opts) generateId g)),
         comment := comment_opt opts,
         credentialProposal := credentialProposal_opt opts,
         schemaIssuerDid := schemaIssuerDid_opt opts,
         schemaId := schemaId_opt opts,
         schemaName := schemaName_opt opts,
         schemaVersion := schemaVersion_opt opts,
         credentialDefinitionId := credentialDefinitionId_opt opts,
         issuerDid := issuerDid_opt opts,
         appendedAttachments := attachments opts\<rparr>,
      snd (nullish_coalescing (id_opt opts) generateId g))"
  by (simp add: V1ProposeCredentialMessage_new_def Let_def split_beta)

lemma BatchPickupMessage_new_Some:
  "BatchPickupMessage_new generateId (Some opts) g =
     (BatchPickupMessage_init
        \<lparr>id_msg := Some (fst (logical_or (id_bopt opts) generateId g)),
         batchSize := batchSize_bopt opts\<rparr>,
      snd (logical_or (id_bopt opts) generateId g))"
  by (simp add: BatchPickupMessage_new_def Let_def split_beta)

lemma V1ProposeCredentialMessage_new_None:
  "V1ProposeCredentialMessage_new generateId None g = (V1ProposeCredentialMessage_init, g)"
  by (simp add: V1ProposeCredentialMessage_new_def)

lemma BatchPickupMessage_new_None:
  "BatchPickupMessage_new generateId None g = (BatchPickupMessage_init, g)"
  by (simp add: BatchPickupMessage_new_def)

lemma type_V1ProposeCredentialMessage_init:
  "type V1ProposeCredentialMessage_init =
     ''https://didcomm.org/issue-credential/1.0/propose-credential''"
  by (simp add: V1ProposeCredentialMessage_init_def V1ProposeCredentialMessage_type_def
      parseMessageType_def)

lemma type_BatchPickupMessage_init:
  "type BatchPickupMessage_init = ''https://didcomm.org/messagepickup/1.0/batch-pickup''"
  by (simp add: BatchPickupMessage_init_def BatchPickupMessage_type_def parseMessageType_def)

section \<open>The attachment accessor\<close>

text \<open>
  C1. \<^verbatim>\<open>getAttachment()\<close> returns the first element of the appended attachments
  when there is at least one, and \<^verbatim>\<open>undefined\<close> when the property is unset or
  holds the empty array. It never throws.
\<close>

theorem getAttachment_first:
  "getAttachment this =
     Inr (case appendedAttachments this of
            None \<Rightarrow> None
          | Some [] \<Rightarrow> None
          | Some (a # _) \<Rightarrow> Some a)"
  by (simp add: getAttachment_def truthy_object_def index_def split: option.split list.split)

text \<open>
  C9. \<^verbatim>\<open>getAttachment()\<close> returns for every state of the appended attachments:
  the read of index 0, which would throw on \<^verbatim>\<open>undefined\<close>, is only reached when
  the property is set. With the empty array the property is truthy, so the
  accessor takes the branch that reads index 0 of the empty array, and the
  result is \<^verbatim>\<open>undefined\<close>, as it is when the property is unset.
\<close>

theorem getAttachment_total:
  "(\<exists>r. getAttachment this = Inr r) \<and>
   (appendedAttachments this = Some [] \<longrightarrow>
      truthy_object (appendedAttachments this) \<and>
      getAttachment this = index (Some []) 0 \<and>
      getAttachment this = Inr None \<and>
      getAttachment this = getAttachment (this\<lparr>appendedAttachments := None\<rparr>))"
  by (simp add: getAttachment_def truthy_object_def index_def split: option.split)

theorem getAttachment_total_witness:
  "getAttachment (V1ProposeCredentialMessage_init\<lparr>appendedAttachments := Some ([] :: nat list)\<rparr>
      :: (nat, unit) V1ProposeCredentialMessage) = Inr None \<and>
   getAttachment (V1ProposeCredentialMessage_init :: (nat, unit) V1ProposeCredentialMessage) =
     Inr None"
  using getAttachment_total
    [of "V1ProposeCredentialMessage_init\<lparr>appendedAttachments := Some ([] :: nat list)\<rparr>
      :: (nat, unit) V1ProposeCredentialMessage"]
  by (simp add: V1ProposeCredentialMessage_init_def getAttachment_def truthy_object_def index_def)

section \<open>Construction\<close>

text \<open>
  C3. Constructing either message from an options bundle copies every supplied
  field unchanged: each property of the instance equals the corresponding value
  of the bundle (its attachments become the appended attachments), whatever the
  bundle holds.
\<close>

theorem constructor_preserves_fields:
  "(let this = fst (V1ProposeCredentialMessage_new generateId (Some opts) g) in
      comment this = comment_opt opts \<and>
      credentialProposal this = credentialProposal_opt opts \<and>
      schemaIssuerDid this = schemaIssuerDid_opt opts \<and>
      schemaId this = schemaId_opt opts \<and>
      schemaName this = schemaName_opt opts \<and>
      schemaVersion this = schemaVersion_opt opts \<and>
      credentialDefinitionId this = credentialDefinitionId_opt opts \<and>
      issuerDid this = issuerDid_opt opts \<and>
      appendedAttachments this = attachments opts) \<and>
   batchSize (fst (BatchPickupMessage_new generateId' (Some bopts) g')) = batchSize_bopt bopts"
  by (simp add: V1ProposeCredentialMessage_new_Some BatchPickupMessage_new_Some)

text \<open>
  C4. The message-type URI is a constant of each class: the static \<^verbatim>\<open>type\<close> of the
  class carries it, and every instance, constructed with or without an options
  bundle and from any generator state, has exactly that string as its
  \<^verbatim>\<open>type\<close>. The constructors are the only operations of the file that write to an
  instance; \<^verbatim>\<open>getAttachment\<close> reads.
\<close>

theorem type_constant_per_class:
  "messageTypeUri V1ProposeCredentialMessage_type =
     ''https://didcomm.org/issue-credential/1.0/propose-credential'' \<and>
   messageTypeUri BatchPickupMessage_type =
     ''https://didcomm.org/messagepickup/1.0/batch-pickup'' \<and>
   type (fst (V1ProposeCredentialMessage_new generateId options g)) =
     ''https://didcomm.org/issue-credential/1.0/propose-credential'' \<and>
   type (fst (BatchPickupMessage_new generateId' boptions g')) =
     ''https://didcomm.org/messagepickup/1.0/batch-pickup''"
proof -
  have "type (fst (V1ProposeCredentialMessage_new generateId options g)) =
     ''https://didcomm.org/issue-credential/1.0/propose-credential''"
    by (cases options)
      (simp_all add: V1ProposeCredentialMessage_new_None V1ProposeCredentialMessage_new_Some
        type_V1ProposeCredentialMessage_init)
  moreover have "type (fst (BatchPickupMessage_new generateId' boptions g')) =
     ''https://didcomm.org/messagepickup/1.0/batch-pickup''"
    by (cases boptions)
      (simp_all add: BatchPickupMessage_new_None BatchPickupMessage_new_Some
        type_BatchPickupMessage_init)
  ultimately show ?thesis
    by (simp add: V1ProposeCredentialMessage_type_def BatchPickupMessage_type_def
        parseMessageType_def)
qed

section \<open>The message identifier\<close>

lemma nullish_coalescing_simps:
  "nullish_coalescing (Some v) r g = (v, g)"
  "nullish_coalescing None r g = r g"
  by (simp_all add: nullish_coalescing_def)

lemma logical_or_simps:
  "logical_or None r g = r g"
  "logical_or (Some []) r g = r g"
  "v \<noteq> [] \<Longrightarrow> logical_or (Some v) r g = (v, g)"
  by (simp_all add: logical_or_def truthy_string_def)

text \<open>
  C10. The two constructors differ on an empty string given as \<^verbatim>\<open>id\<close>:
  \<^verbatim>\<open>V1ProposeCredentialMessage\<close> keeps the empty string as the identifier of the
  instance and generates nothing (\<^verbatim>\<open>??\<close>), \<^verbatim>\<open>BatchPickupMessage\<close> drops it and
  takes a generated identifier (\<^verbatim>\<open>||\<close>).
\<close>

theorem empty_id_differs:
  "id_msg (fst (V1ProposeCredentialMessage_new generateId (Some (opts\<lparr>id_opt := Some ''''\<rparr>)) g)) =
     Some '''' \<and>
   snd (V1ProposeCredentialMessage_new generateId (Some (opts\<lparr>id_opt := Some ''''\<rparr>)) g) = g \<and>
   id_msg (fst (BatchPickupMessage_new generateId (Some (bopts\<lparr>id_bopt := Some ''''\<rparr>)) g)) =
     Some (fst (generateId g)) \<and>
   snd (BatchPickupMessage_new generateId (Some (bopts\<lparr>id_bopt := Some ''''\<rparr>)) g) =
     snd (generateId g)"
  by (simp add: V1ProposeCredentialMessage_new_Some BatchPickupMessage_new_Some
      nullish_coalescing_simps logical_or_simps)

text \<open>
  C2, as stated, fails: a \<^verbatim>\<open>V1ProposeCredentialMessage\<close> constructed with the empty
  string as \<^verbatim>\<open>id\<close> has the empty string as its identifier, although the generator
  would have returned a non-empty one.
\<close>

theorem id_non_empty_counterexample:
  "id_msg (fst (V1ProposeCredentialMessage_new (Pair ''fresh'')
     (Some \<lparr>id_opt = Some '''', comment_opt = None, credentialProposal_opt = None :: unit option,
       schemaIssuerDid_opt = None, schemaId_opt = None, schemaName_opt = None,
       schemaVersion_opt = None, credentialDefinitionId_opt = None, issuerDid_opt = None,
       attachments = None :: unit list option\<rparr>) ())) = Some ''''"
  by (simp add: V1ProposeCredentialMessage_new_Some nullish_coalescing_simps)

text \<open>
  C2, amended. After constructing either message from an options bundle the
  identifier is present. A \<^verbatim>\<open>V1ProposeCredentialMessage\<close> has the \<^verbatim>\<open>id\<close> of the bundle
  when there is one, and the generated identifier when there is none; it is
  non-empty when generated identifiers are and the bundle's \<^verbatim>\<open>id\<close> is not the empty
  string. A \<^verbatim>\<open>BatchPickupMessage\<close> has the \<^verbatim>\<open>id\<close> of the bundle when that is a
  non-empty string, and the generated identifier when there is none or it is
  empty; it is non-empty when generated identifiers are.
\<close>

theorem id_after_construction:
  "(let this = fst (V1ProposeCredentialMessage_new generateId (Some opts) g) in
      id_msg this \<noteq> None \<and>
      (\<forall>i. id_opt opts = Some i \<longrightarrow> id_msg this = Some i) \<and>
      (id_opt opts = None \<longrightarrow> id_msg this = Some (fst (generateId g))) \<and>
      (id_opt opts \<noteq> Some '''' \<and> fst (generateId g) \<noteq> '''' \<longrightarrow> id_msg this \<noteq> Some '''')) \<and>
   (let this = fst (BatchPickupMessage_new generateId' (Some bopts) g') in
      id_msg this \<noteq> None \<and>
      (\<forall>i. id_bopt bopts = Some i \<and> i \<noteq> '''' \<longrightarrow> id_msg this = Some i) \<and>
      (id_bopt bopts = None \<or> id_bopt bopts = Some '''' \<longrightarrow>
         id_msg this = Some (fst (generateId' g'))) \<and>
      (fst (generateId' g') \<noteq> '''' \<longrightarrow> id_msg this \<noteq> Some ''''))"
proof -
  have a: "\<And>i. id_bopt bopts = Some i \<Longrightarrow> i \<noteq> '''' \<Longrightarrow>
      logical_or (id_bopt bopts) generateId' g' = (i, g')"
    by (simp add: logical_or_simps)
  have b: "id_bopt bopts = None \<or> id_bopt bopts = Some '''' \<Longrightarrow>
      logical_or (id_bopt bopts) generateId' g' = generateId' g'"
    by (auto simp: logical_or_simps)
  have c: "fst (generateId' g') \<noteq> '''' \<Longrightarrow>
      fst (logical_or (id_bopt bopts) generateId' g') \<noteq> ''''"
    by (cases "id_bopt bopts") (auto simp: logical_or_def truthy_string_def)
  have d: "id_opt opts \<noteq> Some '''' \<Longrightarrow> fst (generateId g) \<noteq> '''' \<Longrightarrow>
      fst (nullish_coalescing (id_opt opts) generateId g) \<noteq> ''''"
    by (cases "id_opt opts") (auto simp: nullish_coalescing_simps)
  show ?thesis
    using a b c d
    by (auto simp: Let_def V1ProposeCredentialMessage_new_Some BatchPickupMessage_new_Some
        nullish_coalescing_simps)
qed

theorem id_after_construction_witness:
  "id_msg (fst (V1ProposeCredentialMessage_new (Pair ''fresh'')
     (Some \<lparr>id_opt = None, comment_opt = None, credentialProposal_opt = None :: unit option,
       schemaIssuerDid_opt = None, schemaId_opt = None, schemaName_opt = None,
       schemaVersion_opt = None, credentialDefinitionId_opt = None, issuerDid_opt = None,
       attachments = None :: unit list option\<rparr>) ())) = Some ''fresh'' \<and>
   id_msg (fst (BatchPickupMessage_new (Pair ''fresh'')
     (Some \<lparr>id_bopt = Some ''abc'', batchSize_bopt = Some (Finite 10)\<rparr>) ())
       :: unit BatchPickupMessage) = Some ''abc''"
  using id_after_construction [of "Pair ''fresh''"
     "\<lparr>id_opt = None, comment_opt = None, credentialProposal_opt = None :: unit option,
       schemaIssuerDid_opt = None, schemaId_opt = None, schemaName_opt = None,
       schemaVersion_opt = None, credentialDefinitionId_opt = None, issuerDid_opt = None,
       attachments = None :: unit list option\<rparr>" "()" "Pair ''fresh''"
     "\<lparr>id_bopt = Some ''abc'', batchSize_bopt = Some (Finite 10)\<rparr>" "()"]
  by (simp add: Let_def V1ProposeCredentialMessage_new_Some BatchPickupMessage_new_Some
      nullish_coalescing_simps logical_or_simps)

section \<open>What the validation pass reports\<close>

lemma filter_property_validateProperty:
  "filter (\<lambda>e. property e = n) (validateProperty m opt ds nested val) =
     (if m = n then validateProperty m opt ds nested val else [])"
  by (simp add: validateProperty_def Let_def)

lemma validateProperty_optional_string:
  "validateProperty m True [IsString, Matches re msg] not_nested val =
     (case val of
        None \<Rightarrow> []
      | Some v \<Rightarrow> if re v then [] else [ValidationError m [(matches, msg)] []])"
  by (simp add: validateProperty_def failed_def IsString_def Matches_def not_nested_def Let_def
      split: option.split)

lemma validateProperty_IsInt:
  "validateProperty m False [IsInt] not_nested val =
     (if (case val of None \<Rightarrow> False | Some n \<Rightarrow> isInteger n) then []
      else [ValidationError m [(isInt, None)] []])"
  by (simp add: validateProperty_def failed_def IsInt_def not_nested_def Let_def
      split: option.split)

lemma isInteger_iff: "isInteger n \<longleftrightarrow> (\<exists>k::int. n = Finite (of_int k))"
  by (cases n) (auto simp: isInteger_def)

lemma V1ProposeCredentialMessage_validate_property:
  "filter (\<lambda>e. property e = ''schemaIssuerDid'')
     (V1ProposeCredentialMessage_validate u preview this) =
   validateProperty ''schemaIssuerDid'' True [IsString, Matches (indyDidRegex u) None]
     not_nested (schemaIssuerDid this)"
  "filter (\<lambda>e. property e = ''schemaId'')
     (V1ProposeCredentialMessage_validate u preview this) =
   validateProperty ''schemaId'' True [IsString, Matches (schemaIdRegex u) None]
     not_nested (schemaId this)"
  "filter (\<lambda>e. property e = ''schemaVersion'')
     (V1ProposeCredentialMessage_validate u preview this) =
   validateProperty ''schemaVersion'' True
     [IsString, Matches (schemaVersionRegex u) (Some ''Version must be X.X or X.X.X'')]
     not_nested (schemaVersion this)"
  "filter (\<lambda>e. property e = ''credentialDefinitionId'')
     (V1ProposeCredentialMessage_validate u preview this) =
   validateProperty ''credentialDefinitionId'' True [IsString, Matches (credDefIdRegex u) None]
     not_nested (credentialDefinitionId this)"
  "filter (\<lambda>e. property e = ''issuerDid'')
     (V1ProposeCredentialMessage_validate u preview this) =
   validateProperty ''issuerDid'' True [IsString, Matches (indyDidRegex u) None]
     not_nested (issuerDid this)"
  by (simp_all add: V1ProposeCredentialMessage_validate_def filter_property_validateProperty)

lemma BatchPickupMessage_validate_batchSize:
  "filter (\<lambda>e. property e = ''batchSize'') (BatchPickupMessage_validate u this) =
     validateProperty ''batchSize'' False [IsInt] not_nested (batchSize this)"
  by (simp add: BatchPickupMessage_validate_def filter_property_validateProperty)




text \<open>
  C6. The constructor of \<^verbatim>\<open>V1ProposeCredentialMessage\<close> checks no format: for every
  options bundle it returns an instance that holds the five identifier fields
  (schema issuer DID, schema id, schema version, credential definition id,
  issuer DID) exactly as supplied, whether they match their regular expressions
  or not. The regular expressions are read by the validation pass only: run on
  the constructed instance, it reports for each of the five properties one error
  with the failed \<^verbatim>\<open>matches\<close> constraint when the value is there and does not
  match, and nothing otherwise.
\<close>

theorem constructor_no_format_validation:
  "(let this = fst (V1ProposeCredentialMessage_new generateId (Some opts) g);
        report = (\<lambda>name. filter (\<lambda>e. property e = name)
                   (V1ProposeCredentialMessage_validate u preview this));
        mismatch = (\<lambda>name re msg val. case val of
                      None \<Rightarrow> []
                    | Some v \<Rightarrow> if re v then [] else [ValidationError name [(matches, msg)] []]) in
      schemaIssuerDid this = schemaIssuerDid_opt opts \<and>
      schemaId this = schemaId_opt opts \<and>
      schemaVersion this = schemaVersion_opt opts \<and>
      credentialDefinitionId this = credentialDefinitionId_opt opts \<and>
      issuerDid this = issuerDid_opt opts \<and>
      report ''schemaIssuerDid'' =
        mismatch ''schemaIssuerDid'' (indyDidRegex u) None (schemaIssuerDid_opt opts) \<and>
      report ''schemaId'' = mismatch ''schemaId'' (schemaIdRegex u) None (schemaId_opt opts) \<and>
      report ''schemaVersion'' =
        mismatch ''schemaVersion'' (schemaVersionRegex u) (Some ''Version must be X.X or X.X.X'')
          (schemaVersion_opt opts) \<and>
      report ''credentialDefinitionId'' =
        mismatch ''credentialDefinitionId'' (credDefIdRegex u) None
          (credentialDefinitionId_opt opts) \<and>
      report ''issuerDid'' = mismatch ''issuerDid'' (indyDidRegex u) None (issuerDid_opt opts))"
  by (simp add: Let_def V1ProposeCredentialMessage_validate_property
      validateProperty_optional_string V1ProposeCredentialMessage_new_Some)

theorem constructor_no_format_validation_witness:
  "(let this = fst (V1ProposeCredentialMessage_new (Pair ''fresh'')
          (Some \<lparr>id_opt = None, comment_opt = None, credentialProposal_opt = None :: unit option,
            schemaIssuerDid_opt = Some ''not a did'', schemaId_opt = Some ''?'',
            schemaName_opt = None, schemaVersion_opt = Some ''v1'',
            credentialDefinitionId_opt = Some ''!'', issuerDid_opt = Some '''',
            attachments = None :: unit list option\<rparr>) ()) in
      schemaIssuerDid this = Some ''not a did'' \<and>
      schemaId this = Some ''?'' \<and>
      schemaVersion this = Some ''v1'' \<and>
      credentialDefinitionId this = Some ''!'' \<and>
      issuerDid this = Some '''' \<and>
      map property
        (V1ProposeCredentialMessage_validate
          \<lparr>indyDidRegex = (=) ''did'', schemaIdRegex = (=) ''sid'',
           schemaVersionRegex = (=) ''1.0'', credDefIdRegex = (=) ''cd'',
           IsValidMessageType = (=) \<circ> messageTypeUri\<rparr>
          not_nested this) =
        [''schemaIssuerDid'', ''schemaId'', ''schemaVersion'', ''credentialDefinitionId'',
         ''issuerDid''])"
  using constructor_no_format_validation
    [where opts = "\<lparr>id_opt = None, comment_opt = None, credentialProposal_opt = None :: unit option,
            schemaIssuerDid_opt = Some ''not a did'', schemaId_opt = Some ''?'',
            schemaName_opt = None, schemaVersion_opt = Some ''v1'',
            credentialDefinitionId_opt = Some ''!'', issuerDid_opt = Some '''',
            attachments = None :: unit list option\<rparr>"
       and u = "\<lparr>indyDidRegex = (=) ''did'', schemaIdRegex = (=) ''sid'',
           schemaVersionRegex = (=) ''1.0'', credDefIdRegex = (=) ''cd'',
           IsValidMessageType = (=) \<circ> messageTypeUri\<rparr>"
       and preview = not_nested and generateId = "Pair ''fresh''" and g = "()"]
  by (simp add: Let_def V1ProposeCredentialMessage_new_Some V1ProposeCredentialMessage_validate_def
      validateProperty_def failed_def IsString_def Matches_def not_nested_def
      IsInstance_def IsValidMessageType_decorator_def type_V1ProposeCredentialMessage_init
      V1ProposeCredentialMessage_type_def parseMessageType_def)

text \<open>
  C8. The constructor of \<^verbatim>\<open>BatchPickupMessage\<close> assigns \<^verbatim>\<open>batchSize\<close> from the bundle
  as it is: a missing batch size leaves the property \<^verbatim>\<open>undefined\<close>, a number that is
  not an integer is stored. The validation pass, run on the constructed instance,
  reports one error for the property \<^verbatim>\<open>batchSize\<close>, with the failed \<^verbatim>\<open>isInt\<close>
  constraint, exactly when the stored value is not an integer number.
\<close>

theorem batchSize_unchecked:
  "(let this = fst (BatchPickupMessage_new generateId (Some bopts) g) in
      batchSize this = batchSize_bopt bopts \<and>
      filter (\<lambda>e. property e = ''batchSize'') (BatchPickupMessage_validate u this) =
        (if \<exists>k::int. batchSize_bopt bopts = Some (Finite (of_int k)) then []
         else [ValidationError ''batchSize'' [(isInt, None)] []]))"
proof -
  have "(case batchSize_bopt bopts of None \<Rightarrow> False | Some n \<Rightarrow> isInteger n) \<longleftrightarrow>
      (\<exists>k::int. batchSize_bopt bopts = Some (Finite (of_int k)))"
    by (cases "batchSize_bopt bopts") (simp_all add: isInteger_iff)
  then show ?thesis
    by (simp add: Let_def BatchPickupMessage_new_Some BatchPickupMessage_validate_batchSize
        validateProperty_IsInt)
qed

theorem batchSize_unchecked_witness:
  "(let this = fst (BatchPickupMessage_new (Pair ''fresh'')
          (Some \<lparr>id_bopt = None, batchSize_bopt = Some (Finite (5 / 2))\<rparr>) ())
          :: unit BatchPickupMessage in
      batchSize this = Some (Finite (5 / 2)) \<and>
      BatchPickupMessage_validate
        \<lparr>indyDidRegex = (=) ''did'', schemaIdRegex = (=) ''sid'',
         schemaVersionRegex = (=) ''1.0'', credDefIdRegex = (=) ''cd'',
         IsValidMessageType = (=) \<circ> messageTypeUri\<rparr> this =
        [ValidationError ''batchSize'' [(isInt, None)] []])"
  using batchSize_unchecked
    [where bopts = "\<lparr>id_bopt = None, batchSize_bopt = Some (Finite (5 / 2))\<rparr>"
       and u = "\<lparr>indyDidRegex = (=) ''did'', schemaIdRegex = (=) ''sid'',
         schemaVersionRegex = (=) ''1.0'', credDefIdRegex = (=) ''cd'',
         IsValidMessageType = (=) \<circ> messageTypeUri\<rparr>"
       and generateId = "Pair ''fresh''" and g = "()"]
  by (simp add: Let_def BatchPickupMessage_new_Some BatchPickupMessage_validate_def
      validateProperty_def failed_def IsInt_def isInteger_def not_nested_def
      IsValidMessageType_decorator_def type_BatchPickupMessage_init
      BatchPickupMessage_type_def parseMessageType_def)

section \<open>Wire names on serialisation\<close>

lemma map_of_property_toJSON:
  "map_of (property_toJSON e name j val) k =
     (if k = wireName e name then map_option j val else None)"
  by (simp add: property_toJSON_def split: option.split)

lemma wireName_V1ProposeCredentialMessage:
  "wireName V1ProposeCredentialMessage_Expose ''comment'' = ''comment''"
  "wireName V1ProposeCredentialMessage_Expose ''credentialProposal'' = ''credential_proposal''"
  "wireName V1ProposeCredentialMessage_Expose ''schemaIssuerDid'' = ''schema_issuer_did''"
  "wireName V1ProposeCredentialMessage_Expose ''schemaId'' = ''schema_id''"
  "wireName V1ProposeCredentialMessage_Expose ''schemaName'' = ''schema_name''"
  "wireName V1ProposeCredentialMessage_Expose ''schemaVersion'' = ''schema_version''"
  "wireName V1ProposeCredentialMessage_Expose ''credentialDefinitionId'' = ''cred_def_id''"
  "wireName V1ProposeCredentialMessage_Expose ''issuerDid'' = ''issuer_did''"
  by (simp_all add: wireName_def V1ProposeCredentialMessage_Expose_def)

lemma wireName_BatchPickupMessage:
  "wireName BatchPickupMessage_Expose ''batchSize'' = ''batch_size''"
  by (simp add: wireName_def BatchPickupMessage_Expose_def)

lemma map_of_V1ProposeCredentialMessage_toJSON:
  "map_of (V1ProposeCredentialMessage_toJSON this) k =
     (if k = ''@type'' then Some (JString (type this))
      else if k = ''comment'' then map_option JString (comment this)
      else if k = ''credential_proposal'' then map_option JObject (credentialProposal this)
      else if k = ''schema_issuer_did'' then map_option JString (schemaIssuerDid this)
      else if k = ''schema_id'' then map_option JString (schemaId this)
      else if k = ''schema_name'' then map_option JString (schemaName this)
      else if k = ''schema_version'' then map_option JString (schemaVersion this)
      else if k = ''cred_def_id'' then map_option JString (credentialDefinitionId this)
      else if k = ''issuer_did'' then map_option JString (issuerDid this)
      else None)"
  by (simp add: V1ProposeCredentialMessage_toJSON_def Let_def map_add_def
      map_of_property_toJSON wireName_V1ProposeCredentialMessage split: option.split)

lemma map_of_BatchPickupMessage_toJSON:
  "map_of (BatchPickupMessage_toJSON this) k =
     (if k = ''@type'' then Some (JString (type this))
      else if k = ''batch_size'' then map_option JNumber (batchSize this)
      else None)"
  by (simp add: BatchPickupMessage_toJSON_def Let_def map_of_property_toJSON
      wireName_BatchPickupMessage)

text \<open>
  C7. In the serialised object of a constructed message each field stands under
  its wire name, with the value of the options bundle: \<^verbatim>\<open>credential_proposal\<close>,
  \<^verbatim>\<open>schema_issuer_did\<close>, \<^verbatim>\<open>schema_id\<close>, \<^verbatim>\<open>schema_name\<close>, \<^verbatim>\<open>schema_version\<close>,
  \<^verbatim>\<open>cred_def_id\<close>, \<^verbatim>\<open>issuer_did\<close> and \<^verbatim>\<open>batch_size\<close> (\<^verbatim>\<open>comment\<close> has no other name).
  A field that the bundle omits has no key in the object, and no internal name
  that differs from its wire name is a key.
\<close>

theorem wire_names:
  "(let this = fst (V1ProposeCredentialMessage_new generateId (Some opts) g);
        wire = map_of (V1ProposeCredentialMessage_toJSON this) in
      wire ''credential_proposal'' = map_option JObject (credentialProposal_opt opts) \<and>
      wire ''schema_issuer_did'' = map_option JString (schemaIssuerDid_opt opts) \<and>
      wire ''schema_id'' = map_option JString (schemaId_opt opts) \<and>
      wire ''schema_name'' = map_option JString (schemaName_opt opts) \<and>
      wire ''schema_version'' = map_option JString (schemaVersion_opt opts) \<and>
      wire ''cred_def_id'' = map_option JString (credentialDefinitionId_opt opts) \<and>
      wire ''issuer_did'' = map_option JString (issuerDid_opt opts) \<and>
      wire ''comment'' = map_option JString (comment_opt opts) \<and>
      wire ''credentialProposal'' = None \<and>
      wire ''schemaIssuerDid'' = None \<and>
      wire ''schemaId'' = None \<and>
      wire ''schemaName'' = None \<and>
      wire ''schemaVersion'' = None \<and>
      wire ''credentialDefinitionId'' = None \<and>
      wire ''issuerDid'' = None) \<and>
   (let this = fst (BatchPickupMessage_new generateId' (Some bopts) g');
        wire = map_of (BatchPickupMessage_toJSON this) in
      wire ''batch_size'' = map_option JNumber (batchSize_bopt bopts) \<and>
      wire ''batchSize'' = None)"
  by (simp add: Let_def map_of_V1ProposeCredentialMessage_toJSON map_of_BatchPickupMessage_toJSON
      V1ProposeCredentialMessage_new_Some BatchPickupMessage_new_Some)

end
